theory Spec2Isabelle
  imports Complex_Main
begin

section \<open>Head pose estimation: a shallow embedding of head_pose_estimation.cpp\<close>

text \<open>
  The embedding follows \<^verbatim>\<open>src/head_pose_estimation.cpp\<close> function by function.
  C++ \<^verbatim>\<open>float\<close> and \<^verbatim>\<open>double\<close> values are modelled as \<^typ>\<open>real\<close>: rounding is not
  modelled. The only place where IEEE arithmetic leaves the finite numbers here is a
  division by zero; such a quotient is the value \<open>NonFinite\<close> (an infinity or a NaN) of
  the type \<open>fval\<close> below. C++ \<^verbatim>\<open>int\<close> and dlib's \<^verbatim>\<open>long\<close> are modelled as \<^typ>\<open>int\<close>
  (pixel coordinates, far from the overflow range), container sizes and indices as
  \<^typ>\<open>nat\<close>. A read beyond the end of a \<^verbatim>\<open>std::vector\<close> is undefined behaviour in the
  source; in the model it is an error value.
\<close>

subsection \<open>Numbers\<close>

datatype fval = Finite real | NonFinite

text \<open>IEEE division of two finite values: a zero divisor gives an infinity or a NaN.\<close>

definition fdiv :: "real \<Rightarrow> real \<Rightarrow> fval" where
  "fdiv a b = (if b = 0 then NonFinite else Finite (a / b))"

text \<open>Product and sum with a finite operand: infinities and NaNs propagate.\<close>

fun fmul :: "fval \<Rightarrow> real \<Rightarrow> fval" where
  "fmul (Finite t) v = Finite (t * v)"
| "fmul NonFinite v = NonFinite"

fun fadd :: "real \<Rightarrow> fval \<Rightarrow> fval" where
  "fadd a (Finite b) = Finite (a + b)"
| "fadd a NonFinite = NonFinite"

text \<open>Conversion of a floating-point value to \<^verbatim>\<open>int\<close> in C++: truncation toward zero.\<close>

definition trunc :: "real \<Rightarrow> int" where
  "trunc r = (if 0 \<le> r then \<lfloor>r\<rfloor> else \<lceil>r\<rceil>)"

text \<open>Division of two C++ \<^verbatim>\<open>int\<close>s: the quotient is truncated toward zero.\<close>

definition cdiv :: "int \<Rightarrow> int \<Rightarrow> int" where
  "cdiv a b = sgn a * sgn b * (\<bar>a\<bar> div \<bar>b\<bar>)"

text \<open>OpenCV's \<^verbatim>\<open>cvRound\<close> (used by \<^verbatim>\<open>saturate_cast<int>\<close>): round to nearest, ties to even.\<close>

definition cvRound :: "real \<Rightarrow> int" where
  "cvRound r =
     (let f = \<lfloor>r\<rfloor>; d = r - of_int f
      in if d < 1 / 2 then f else if 1 / 2 < d then f + 1 else if even f then f else f + 1)"

subsection \<open>OpenCV and dlib value types\<close>

type_synonym Point2f = "real \<times> real"
type_synonym Point3f = "real \<times> real \<times> real"
type_synonym Point = "int \<times> int"
type_synonym Vec3d = "real \<times> real \<times> real"
type_synonym Vec4d = "real \<times> real \<times> real \<times> real"
type_synonym Matx33 = "Vec3d \<times> Vec3d \<times> Vec3d"
type_synonym head_pose = "Vec4d \<times> Vec4d \<times> Vec4d \<times> Vec4d"

text \<open>\<^verbatim>\<open>dlib::point\<close> has \<^verbatim>\<open>long\<close> coordinates; \<^verbatim>\<open>dlib::rectangle\<close> is a face box
  (left, top, right, bottom); a \<^verbatim>\<open>full_object_detection\<close> is read here only through
  \<^verbatim>\<open>part(i)\<close>, so it is the vector of its parts.\<close>

type_synonym dlib_point = "int \<times> int"
type_synonym rectangle = "int \<times> int \<times> int \<times> int"
type_synonym full_object_detection = "dlib_point list"

record Rect =
  rect_x :: int
  rect_y :: int
  rect_width :: int
  rect_height :: int

record image =
  cols :: nat
  rows :: nat
  pixels :: "nat list"

text \<open>The numbers of columns and rows of a \<^verbatim>\<open>cv::Mat\<close> are never negative.\<close>

text \<open>A mask is built by \<^verbatim>\<open>Mat::zeros(roi.size(), CV_8UC1)\<close> followed by
  \<^verbatim>\<open>fillConvexPoly\<close>: it is determined by its size and the polygon filled into it.\<close>

type_synonym mask = "(int \<times> int) \<times> Point list"

definition toCv :: "dlib_point \<Rightarrow> Point2f" where
  "toCv p = (of_int (fst p), of_int (snd p))"

definition toCvI :: "dlib_point \<Rightarrow> Point" where
  "toCvI p = (fst p, snd p)"

text \<open>The conversion \<^verbatim>\<open>Point2f\<close> to \<^verbatim>\<open>Point\<close> (\<^verbatim>\<open>saturate_cast\<close> of each coordinate)
  and back.\<close>

definition Point_of_Point2f :: "Point2f \<Rightarrow> Point" where
  "Point_of_Point2f p = (cvRound (fst p), cvRound (snd p))"

definition Point2f_of_Point :: "Point \<Rightarrow> Point2f" where
  "Point2f_of_Point p = (of_int (fst p), of_int (snd p))"

definition pt_add :: "'a::plus \<times> 'a \<Rightarrow> 'a \<times> 'a \<Rightarrow> 'a \<times> 'a" where
  "pt_add a b = (fst a + fst b, snd a + snd b)"

definition pt_sub :: "'a::minus \<times> 'a \<Rightarrow> 'a \<times> 'a \<Rightarrow> 'a \<times> 'a" where
  "pt_sub a b = (fst a - fst b, snd a - snd b)"

definition pt_scale :: "Point2f \<Rightarrow> real \<Rightarrow> Point2f" where
  "pt_scale a k = (fst a * k, snd a * k)"

text \<open>\<^verbatim>\<open>cv::Rect_(pt1, pt2)\<close>, \<^verbatim>\<open>tl()\<close>, \<^verbatim>\<open>br()\<close> and \<^verbatim>\<open>size()\<close>.\<close>

definition Rect_of_points :: "Point \<Rightarrow> Point \<Rightarrow> Rect" where
  "Rect_of_points pt1 pt2 =
     \<lparr>rect_x = min (fst pt1) (fst pt2),
      rect_y = min (snd pt1) (snd pt2),
      rect_width = max (fst pt1) (fst pt2) - min (fst pt1) (fst pt2),
      rect_height = max (snd pt1) (snd pt2) - min (snd pt1) (snd pt2)\<rparr>"

definition Rect_tl :: "Rect \<Rightarrow> Point" where
  "Rect_tl r = (rect_x r, rect_y r)"

definition Rect_br :: "Rect \<Rightarrow> Point" where
  "Rect_br r = (rect_x r + rect_width r, rect_y r + rect_height r)"

definition Rect_size :: "Rect \<Rightarrow> int \<times> int" where
  "Rect_size r = (rect_width r, rect_height r)"

text \<open>Fixed-size matrices: \<^verbatim>\<open>Mat::zeros(3,3)\<close> and the write \<^verbatim>\<open>m(i,j) = v\<close>.\<close>

definition zeros33 :: Matx33 where
  "zeros33 = ((0, 0, 0), (0, 0, 0), (0, 0, 0))"

fun set_col :: "Vec3d \<Rightarrow> nat \<Rightarrow> real \<Rightarrow> Vec3d" where
  "set_col (a, b, c) j v =
     (if j = 0 then (v, b, c) else if j = 1 then (a, v, c) else if j = 2 then (a, b, v)
      else (a, b, c))"

fun set_entry :: "Matx33 \<Rightarrow> nat \<Rightarrow> nat \<Rightarrow> real \<Rightarrow> Matx33" where
  "set_entry (r0, r1, r2) i j v =
     (if i = 0 then (set_col r0 j v, r1, r2) else if i = 1 then (r0, set_col r1 j v, r2)
      else if i = 2 then (r0, r1, set_col r2 j v) else (r0, r1, r2))"

subsection \<open>The declarations of the header and the external collaborators\<close>

text \<open>The semantic landmark names that the source file uses. Their numeric values are
  declared in \<^verbatim>\<open>head_pose_estimation.hpp\<close>, which is not part of the sources at hand;
  they are the parameter \<open>feature_index\<close> below.\<close>

datatype FACIAL_FEATURE =
  SELLION | RIGHT_EYE | LEFT_EYE | RIGHT_SIDE | LEFT_SIDE | MENTON | NOSE
  | MOUTH_CENTER_TOP | MOUTH_CENTER_BOTTOM

datatype SolvePnPMethod = ITERATIVE | EPNP | P3P

text \<open>The arguments of one call of \<^verbatim>\<open>cv::solvePnP\<close>. \<open>distCoeffs = None\<close> is
  \<^verbatim>\<open>noArray()\<close>; \<open>rvec\<close> and \<open>tvec\<close> are in-out parameters: with
  \<open>useExtrinsicGuess\<close> the solver starts from the values passed in and overwrites them.\<close>

record pnp_call =
  objectPoints :: "Point3f list"
  imagePoints :: "Point2f list"
  cameraMatrix :: Matx33
  distCoeffs :: "real list option"
  rvec :: Vec3d
  tvec :: Vec3d
  useExtrinsicGuess :: bool
  flags :: SolvePnPMethod

text \<open>Everything the source takes from elsewhere: the constants of the header, dlib's
  detector and landmark regressor, the pupil locator of \<^verbatim>\<open>find_eye_center.hpp\<close>, and
  OpenCV's \<^verbatim>\<open>solvePnP\<close> (its boolean result and the final contents of \<open>rvec\<close> and
  \<open>tvec\<close>), \<^verbatim>\<open>Rodrigues\<close> and \<^verbatim>\<open>normalize\<close>.\<close>

record deps =
  feature_index :: "FACIAL_FEATURE \<Rightarrow> nat"
  P3D_SELLION :: Point3f
  P3D_RIGHT_EYE :: Point3f
  P3D_LEFT_EYE :: Point3f
  P3D_RIGHT_EAR :: Point3f
  P3D_LEFT_EAR :: Point3f
  P3D_MENTON :: Point3f
  P3D_NOSE :: Point3f
  P3D_STOMMION :: Point3f
  detector :: "image \<Rightarrow> rectangle list"
  pose_model :: "image \<Rightarrow> rectangle \<Rightarrow> full_object_detection"
  findEyeCenter :: "image \<Rightarrow> Rect \<Rightarrow> mask \<Rightarrow> Point2f"
  solvePnP :: "pnp_call \<Rightarrow> bool \<times> Vec3d \<times> Vec3d"
  Rodrigues :: "Vec3d \<Rightarrow> Matx33"
  cv_normalize :: "Vec3d \<Rightarrow> Vec3d"

subsection \<open>The estimator object\<close>

record HeadPoseEstimation =
  focalLength :: real
  opticalCenterX :: real
  opticalCenterY :: real
  faces :: "rectangle list"
  shapes :: "full_object_detection list"

datatype error = FaceIndexOutOfRange | PartIndexOutOfRange

definition err_bind :: "error + 'a \<Rightarrow> ('a \<Rightarrow> error + 'b) \<Rightarrow> error + 'b" where
  "err_bind m f = (case m of Inl e \<Rightarrow> Inl e | Inr v \<Rightarrow> f v)"

text \<open>The constructor: the optical center starts at the sentinel \<open>-1\<close>; no frame has been
  seen, so there are no faces and no shapes.\<close>

definition new_HeadPoseEstimation :: "real \<Rightarrow> HeadPoseEstimation" where
  "new_HeadPoseEstimation f =
     \<lparr>focalLength = f, opticalCenterX = - 1, opticalCenterY = - 1, faces = [], shapes = []\<rparr>"

definition EYE_ROI_ENLARGE_FACTOR :: real where
  "EYE_ROI_ENLARGE_FACTOR = 25"


subsection \<open>Eye regions\<close>

text \<open>Landmark coordinates are integers, so their images in \<^verbatim>\<open>float\<close> convert back
  to the same integers, and for coordinates below \<open>2^20\<close> in magnitude the quarter
  multiples that occur below are represented exactly in \<^verbatim>\<open>float\<close>.\<close>

text \<open>The two in-place updates \<^verbatim>\<open>roi.x -= margin; roi.y -= margin;\<close> and
  \<^verbatim>\<open>roi.width += 2 * margin; roi.height += 2 * margin;\<close> of an integer rectangle by a
  \<^verbatim>\<open>float\<close> margin: each right-hand side is computed in \<^verbatim>\<open>float\<close> and converted
  back to \<^verbatim>\<open>int\<close>.\<close>

definition enlarge :: "Rect \<Rightarrow> real \<Rightarrow> Rect" where
  "enlarge roi margin =
     roi\<lparr>rect_x := trunc (of_int (rect_x roi) - margin),
         rect_y := trunc (of_int (rect_y roi) - margin),
         rect_width := trunc (of_int (rect_width roi) + 2 * margin),
         rect_height := trunc (of_int (rect_height roi) + 2 * margin)\<rparr>"

text \<open>The rectangle spanned by the corner landmarks \<open>a\<close> and \<open>b\<close> (x) and by the upper-lid
  landmarks \<open>u1\<close>, \<open>u2\<close> and lower-lid landmarks \<open>l1\<close>, \<open>l2\<close> (y), before enlargement.\<close>

definition eye_base_rect ::
  "full_object_detection \<Rightarrow> nat \<Rightarrow> nat \<Rightarrow> nat \<Rightarrow> nat \<Rightarrow> nat \<Rightarrow> nat \<Rightarrow> Rect" where
  "eye_base_rect face a u1 u2 b l1 l2 =
     Rect_of_points
       (Point_of_Point2f (fst (toCv (face ! a)), min (snd (toCv (face ! u1))) (snd (toCv (face ! u2)))))
       (Point_of_Point2f (fst (toCv (face ! b)), max (snd (toCv (face ! l1))) (snd (toCv (face ! l2)))))"

text \<open>\<^verbatim>\<open>eyesROI\<close> reads the parts 36 to 47 unconditionally, through dlib's unchecked
  \<^verbatim>\<open>part(i)\<close>: with fewer than 48 parts that is an out-of-range read. The margin of the
  right eye is computed at line 104 from \<^verbatim>\<open>leye_roi.width\<close>, the width of the left
  rectangle after its enlargement.\<close>

definition eyesROI :: "full_object_detection \<Rightarrow> error + (Point list \<times> Rect \<times> Point list \<times> Rect)" where
  "eyesROI face =
     (if length face < 48 then Inl PartIndexOutOfRange
      else
        let leye_roi0 = eye_base_rect face 36 37 38 39 40 41;
            lmargin = EYE_ROI_ENLARGE_FACTOR / 100 * of_int (rect_width leye_roi0);
            leye_roi = enlarge leye_roi0 lmargin;
            leye = map (\<lambda>i. pt_sub (toCvI (face ! i)) (Rect_tl leye_roi)) [36, 37, 38, 39, 40, 41];
            reye_roi0 = eye_base_rect face 42 43 44 45 46 47;
            rmargin = EYE_ROI_ENLARGE_FACTOR / 100 * of_int (rect_width leye_roi);
            reye_roi = enlarge reye_roi0 rmargin;
            reye = map (\<lambda>i. pt_sub (toCvI (face ! i)) (Rect_tl reye_roi)) [42, 43, 44, 45, 46, 47]
        in Inr (leye, leye_roi, reye, reye_roi))"

subsection \<open>Pupil normalization\<close>

text \<open>Lines 149 to 152 (left eye) and 154 to 157 (right eye): the same four statements.
  \<^verbatim>\<open>roi.width/2\<close> and \<^verbatim>\<open>roi.height/2\<close> divide two \<^verbatim>\<open>int\<close>s; the quotient is then
  converted to \<^verbatim>\<open>float\<close> for the division of the coordinate.\<close>

definition relative_pose :: "Rect \<Rightarrow> Point2f \<Rightarrow> fval \<times> fval" where
  "relative_pose roi pupil =
     (let center = Point2f_of_Point (pt_sub (Rect_br roi) (Rect_tl roi));
          pupil_relative = pt_sub pupil (pt_scale center 0.5)
      in (fdiv (fst pupil_relative) (of_int (cdiv (rect_width roi) 2)),
          fdiv (snd pupil_relative) (of_int (cdiv (rect_height roi) 2))))"

definition pupilsRelativePose ::
  "deps \<Rightarrow> image \<Rightarrow> full_object_detection \<Rightarrow> error + ((fval \<times> fval) \<times> (fval \<times> fval))" where
  "pupilsRelativePose c img face =
     err_bind (eyesROI face) (\<lambda>(left_eye, left_eye_roi, right_eye, right_eye_roi).
       let left_mask = (Rect_size left_eye_roi, left_eye);
           right_mask = (Rect_size right_eye_roi, right_eye);
           left_pupil = findEyeCenter c img left_eye_roi left_mask;
           right_pupil = findEyeCenter c img right_eye_roi right_mask
       in Inr (relative_pose left_eye_roi left_pupil, relative_pose right_eye_roi right_pupil))"

subsection \<open>Processing a frame\<close>

text \<open>The final loop of \<^verbatim>\<open>update\<close> calls \<^verbatim>\<open>pupilsRelativePose\<close> on every shape and
  drops the results; it changes nothing in the object, but it reads the parts 36 to 47 of
  every shape.\<close>

fun for_each :: "('a \<Rightarrow> error + 'b) \<Rightarrow> 'a list \<Rightarrow> error + unit" where
  "for_each f [] = Inr ()"
| "for_each f (x # xs) = err_bind (f x) (\<lambda>_. for_each f xs)"

definition update :: "deps \<Rightarrow> image \<Rightarrow> HeadPoseEstimation \<Rightarrow> error + HeadPoseEstimation" where
  "update c img s =
     (let s1 = (if opticalCenterX s = - 1
                then s\<lparr>opticalCenterX := of_nat (cols img div 2),
                       opticalCenterY := of_nat (rows img div 2)\<rparr>
                else s);
          s2 = s1\<lparr>faces := detector c img\<rparr>;
          s3 = s2\<lparr>shapes := []\<rparr>;
          s4 = s3\<lparr>shapes := shapes s3 @ map (pose_model c img) (faces s2)\<rparr>
      in err_bind (for_each (pupilsRelativePose c img) (shapes s4)) (\<lambda>_. Inr s4))"

text \<open>A sequence of frames, processed one after the other.\<close>

fun updates :: "deps \<Rightarrow> image list \<Rightarrow> HeadPoseEstimation \<Rightarrow> error + HeadPoseEstimation" where
  "updates c [] s = Inr s"
| "updates c (img # imgs) s = err_bind (update c img s) (updates c imgs)"

subsection \<open>Landmark lookup\<close>

text \<open>\<^verbatim>\<open>shapes[face_idx]\<close> and \<^verbatim>\<open>part(feature)\<close> are unchecked vector reads.\<close>

definition part :: "full_object_detection \<Rightarrow> nat \<Rightarrow> error + dlib_point" where
  "part d i = (if i < length d then Inr (d ! i) else Inl PartIndexOutOfRange)"

definition coordsOf :: "deps \<Rightarrow> HeadPoseEstimation \<Rightarrow> nat \<Rightarrow> FACIAL_FEATURE \<Rightarrow> error + Point2f" where
  "coordsOf c s face_idx feature =
     (if face_idx < length (shapes s)
      then err_bind (part (shapes s ! face_idx) (feature_index c feature)) (\<lambda>p. Inr (toCv p))
      else Inl FaceIndexOutOfRange)"

subsection \<open>The head pose\<close>

text \<open>Lines 250 to 256: the camera matrix.\<close>

definition projection :: "HeadPoseEstimation \<Rightarrow> Matx33" where
  "projection s =
     (let p0 = zeros33;
          p1 = set_entry p0 0 0 (focalLength s);
          p2 = set_entry p1 1 1 (focalLength s);
          p3 = set_entry p2 0 2 (opticalCenterX s);
          p4 = set_entry p3 1 2 (opticalCenterY s);
          p5 = set_entry p4 2 2 1
      in p5)"

text \<open>Lines 258 to 297: the arguments with which \<^verbatim>\<open>pose\<close> calls \<^verbatim>\<open>solvePnP\<close>.\<close>

definition pnp_arguments :: "deps \<Rightarrow> HeadPoseEstimation \<Rightarrow> nat \<Rightarrow> error + pnp_call" where
  "pnp_arguments c s face_idx =
     (let head_points = [] @ [P3D_SELLION c] @ [P3D_RIGHT_EYE c] @ [P3D_LEFT_EYE c]
            @ [P3D_RIGHT_EAR c] @ [P3D_LEFT_EAR c] @ [P3D_MENTON c] @ [P3D_NOSE c]
            @ [P3D_STOMMION c]
      in
      err_bind (coordsOf c s face_idx SELLION) (\<lambda>d0.
      err_bind (coordsOf c s face_idx RIGHT_EYE) (\<lambda>d1.
      err_bind (coordsOf c s face_idx LEFT_EYE) (\<lambda>d2.
      err_bind (coordsOf c s face_idx RIGHT_SIDE) (\<lambda>d3.
      err_bind (coordsOf c s face_idx LEFT_SIDE) (\<lambda>d4.
      err_bind (coordsOf c s face_idx MENTON) (\<lambda>d5.
      err_bind (coordsOf c s face_idx NOSE) (\<lambda>d6.
      err_bind (coordsOf c s face_idx MOUTH_CENTER_TOP) (\<lambda>top.
      err_bind (coordsOf c s face_idx MOUTH_CENTER_BOTTOM) (\<lambda>bottom.
        let stomion = pt_scale (pt_add top bottom) 0.5;
            detected_points = [d0, d1, d2, d3, d4, d5, d6] @ [stomion]
        in Inr \<lparr>objectPoints = head_points,
                imagePoints = detected_points,
                cameraMatrix = projection s,
                distCoeffs = None,
                rvec = (1.2, 1.2, - 1.2),
                tvec = (0, 0, 1000),
                useExtrinsicGuess = True,
                flags = ITERATIVE\<rparr>))))))))))"

text \<open>Lines 299 to 307: the 4x4 matrix built from the rotation matrix and the final
  contents of \<open>tvec\<close>.\<close>

fun assemble :: "Matx33 \<Rightarrow> Vec3d \<Rightarrow> head_pose" where
  "assemble ((r00, r01, r02), (r10, r11, r12), (r20, r21, r22)) (t0, t1, t2) =
     ((r00, r01, r02, t0 / 1000),
      (r10, r11, r12, t1 / 1000),
      (r20, r21, r22, t2 / 1000),
      (0, 0, 0, 1))"

text \<open>\<^verbatim>\<open>pose\<close>: the boolean that \<^verbatim>\<open>solvePnP\<close> returns is not read.\<close>

definition pose :: "deps \<Rightarrow> HeadPoseEstimation \<Rightarrow> nat \<Rightarrow> error + head_pose" where
  "pose c s face_idx =
     err_bind (pnp_arguments c s face_idx) (\<lambda>call.
       case solvePnP c call of (_, rvec', tvec') \<Rightarrow>
         let rotation = Rodrigues c rvec'
         in Inr (assemble rotation tvec'))"

fun poses_from :: "deps \<Rightarrow> HeadPoseEstimation \<Rightarrow> nat list \<Rightarrow> error + head_pose list" where
  "poses_from c s [] = Inr []"
| "poses_from c s (i # is) =
     err_bind (pose c s i) (\<lambda>p. err_bind (poses_from c s is) (\<lambda>ps. Inr (p # ps)))"

definition poses :: "deps \<Rightarrow> HeadPoseEstimation \<Rightarrow> error + head_pose list" where
  "poses c s = poses_from c s [0 ..< length (faces s)]"

subsection \<open>The gaze ray of the debug build\<close>

text \<open>Lines 337 to 344, compiled with \<^verbatim>\<open>HEAD_POSE_ESTIMATION_DEBUG\<close> only. The three
  values \<open>P0\<close>, \<open>V\<close> and \<open>P\<close> are written to \<^verbatim>\<open>cout\<close>; the value that \<^verbatim>\<open>pose\<close>
  returns does not depend on them.\<close>

fun matvec4 :: "head_pose \<Rightarrow> Vec4d \<Rightarrow> Vec4d" where
  "matvec4 ((a0, a1, a2, a3), (b0, b1, b2, b3), (c0, c1, c2, c3), (d0, d1, d2, d3)) (x, y, z, w) =
     (a0 * x + a1 * y + a2 * z + a3 * w,
      b0 * x + b1 * y + b2 * z + b3 * w,
      c0 * x + c1 * y + c2 * z + c3 * w,
      d0 * x + d1 * y + d2 * z + d3 * w)"

fun col_3 :: "head_pose \<Rightarrow> Vec4d" where
  "col_3 ((a0, a1, a2, a3), (b0, b1, b2, b3), (c0, c1, c2, c3), (d0, d1, d2, d3)) = (a3, b3, c3, d3)"

fun toVec3d :: "Vec4d \<Rightarrow> Vec3d" where
  "toVec3d (x, y, z, w) = (x, y, z)"

fun vsub :: "Vec3d \<Rightarrow> Vec3d \<Rightarrow> Vec3d" where
  "vsub (a, b, c) (x, y, z) = (a - x, b - y, c - z)"

fun dot :: "Vec3d \<Rightarrow> Vec3d \<Rightarrow> real" where
  "dot (a, b, c) (x, y, z) = a * x + b * y + c * z"

fun ray_point :: "Vec3d \<Rightarrow> fval \<Rightarrow> Vec3d \<Rightarrow> fval \<times> fval \<times> fval" where
  "ray_point (a, b, c) t (x, y, z) = (fadd a (fmul t x), fadd b (fmul t y), fadd c (fmul t z))"

definition gaze :: "deps \<Rightarrow> head_pose \<Rightarrow> Vec3d \<times> Vec3d \<times> (fval \<times> fval \<times> fval)" where
  "gaze c hp =
     (let P0 = toVec3d (col_3 hp);
          V0 = vsub (toVec3d (matvec4 hp (1, 0, 0, 1))) P0;
          V = cv_normalize c V0;
          N = (0, 0, 1);
          t = fdiv (- (dot P0 N)) (dot V N);
          P = ray_point P0 t V
      in (P0, V, P))"


subsection \<open>Contracts of the collaborators\<close>

text \<open>The landmark regressor returns 68 points for every face, and every landmark name
  of the header denotes one of them.\<close>

definition landmarks68 :: "deps \<Rightarrow> bool" where
  "landmarks68 c = (\<forall>img face. length (pose_model c img face) = 68)"

definition features_in_range :: "deps \<Rightarrow> bool" where
  "features_in_range c = (\<forall>feature. feature_index c feature < 68)"

subsection \<open>The solver call and the pose as the specification describes them\<close>

text \<open>The detected point of a landmark name, the midpoint of two points, the call of the
  solver with the eight correspondences and the seed, and the three blocks of a pose.\<close>

definition landmark :: "deps \<Rightarrow> HeadPoseEstimation \<Rightarrow> nat \<Rightarrow> FACIAL_FEATURE \<Rightarrow> Point2f" where
  "landmark c s face_idx feature = toCv (shapes s ! face_idx ! feature_index c feature)"

definition mid_point :: "Point2f \<Rightarrow> Point2f \<Rightarrow> Point2f" where
  "mid_point a b = ((fst a + fst b) / 2, (snd a + snd b) / 2)"

definition spec_solver_call :: "deps \<Rightarrow> HeadPoseEstimation \<Rightarrow> nat \<Rightarrow> pnp_call" where
  "spec_solver_call c s face_idx =
     \<lparr>objectPoints =
        [P3D_SELLION c, P3D_RIGHT_EYE c, P3D_LEFT_EYE c, P3D_RIGHT_EAR c, P3D_LEFT_EAR c,
         P3D_MENTON c, P3D_NOSE c, P3D_STOMMION c],
      imagePoints =
        [landmark c s face_idx SELLION, landmark c s face_idx RIGHT_EYE,
         landmark c s face_idx LEFT_EYE, landmark c s face_idx RIGHT_SIDE,
         landmark c s face_idx LEFT_SIDE, landmark c s face_idx MENTON,
         landmark c s face_idx NOSE,
         mid_point (landmark c s face_idx MOUTH_CENTER_TOP)
                   (landmark c s face_idx MOUTH_CENTER_BOTTOM)],
      cameraMatrix = projection s,
      distCoeffs = None,
      rvec = (1.2, 1.2, - 1.2),
      tvec = (0, 0, 1000),
      useExtrinsicGuess = True,
      flags = ITERATIVE\<rparr>"

fun rotation_block :: "head_pose \<Rightarrow> Matx33" where
  "rotation_block ((a0, a1, a2, a3), (b0, b1, b2, b3), (c0, c1, c2, c3), d) =
     ((a0, a1, a2), (b0, b1, b2), (c0, c1, c2))"

fun translation_column :: "head_pose \<Rightarrow> Vec3d" where
  "translation_column ((a0, a1, a2, a3), (b0, b1, b2, b3), (c0, c1, c2, c3), d) = (a3, b3, c3)"

fun bottom_row :: "head_pose \<Rightarrow> Vec4d" where
  "bottom_row (a, b, c, d) = d"

fun vdiv :: "Vec3d \<Rightarrow> real \<Rightarrow> Vec3d" where
  "vdiv (a, b, c) k = (a / k, b / k, c / k)"

text \<open>A point with finite coordinates, and the sum and the multiple of vectors.\<close>

fun finite_point :: "Vec3d \<Rightarrow> fval \<times> fval \<times> fval" where
  "finite_point (x, y, z) = (Finite x, Finite y, Finite z)"

fun vadd :: "Vec3d \<Rightarrow> Vec3d \<Rightarrow> Vec3d" where
  "vadd (a, b, c) (x, y, z) = (a + x, b + y, c + z)"

fun vscale :: "real \<Rightarrow> Vec3d \<Rightarrow> Vec3d" where
  "vscale k (x, y, z) = (k * x, k * y, k * z)"

subsection \<open>Sample collaborators and inputs\<close>

text \<open>One concrete choice of everything \<open>deps\<close> holds, used to run the model: landmark
  numbers of the 68-point scheme, a head model in millimeters, a detector that finds one
  face, a regressor that puts landmark \<open>i\<close> at \<open>(3i, 2i)\<close>, a pupil locator that answers
  the middle of the right edge of the region, a solver that reports failure and leaves a
  zero rotation vector, and the textbook formulas for the rotation matrix of a rotation
  vector and for the Euclidean normalization.\<close>

definition sample_shape :: full_object_detection where
  "sample_shape = map (\<lambda>i. (3 * int i, 2 * int i)) [0 ..< 68]"

fun sample_index :: "FACIAL_FEATURE \<Rightarrow> nat" where
  "sample_index SELLION = 27"
| "sample_index RIGHT_EYE = 36"
| "sample_index LEFT_EYE = 45"
| "sample_index RIGHT_SIDE = 0"
| "sample_index LEFT_SIDE = 16"
| "sample_index MENTON = 8"
| "sample_index NOSE = 30"
| "sample_index MOUTH_CENTER_TOP = 62"
| "sample_index MOUTH_CENTER_BOTTOM = 66"

definition rodrigues_formula :: "Vec3d \<Rightarrow> Matx33" where
  "rodrigues_formula r =
     (case r of (x, y, z) \<Rightarrow>
        let th = sqrt (x * x + y * y + z * z)
        in if th = 0 then ((1, 0, 0), (0, 1, 0), (0, 0, 1))
           else let c = cos th; s = sin th; ux = x / th; uy = y / th; uz = z / th
                in ((c + (1 - c) * ux * ux, (1 - c) * ux * uy - s * uz, (1 - c) * ux * uz + s * uy),
                    ((1 - c) * uy * ux + s * uz, c + (1 - c) * uy * uy, (1 - c) * uy * uz - s * ux),
                    ((1 - c) * uz * ux - s * uy, (1 - c) * uz * uy + s * ux, c + (1 - c) * uz * uz)))"

definition normalize_l2 :: "Vec3d \<Rightarrow> Vec3d" where
  "normalize_l2 v =
     (case v of (x, y, z) \<Rightarrow>
        let n = sqrt (x * x + y * y + z * z)
        in if n = 0 then (0, 0, 0) else (x / n, y / n, z / n))"

definition sample_deps :: deps where
  "sample_deps =
     \<lparr>feature_index = sample_index,
      P3D_SELLION = (0, 0, 0),
      P3D_RIGHT_EYE = (- 20, - 65.5, - 5),
      P3D_LEFT_EYE = (- 20, 65.5, - 5),
      P3D_RIGHT_EAR = (- 100, - 77.5, - 6),
      P3D_LEFT_EAR = (- 100, 77.5, - 6),
      P3D_MENTON = (0, 0, - 133),
      P3D_NOSE = (21, 0, - 48),
      P3D_STOMMION = (10, 0, - 75),
      detector = (\<lambda>img. [(0, 0, 10, 10)]),
      pose_model = (\<lambda>img face. sample_shape),
      findEyeCenter = (\<lambda>img roi m. (of_int (rect_width roi), of_int (rect_height roi) / 2)),
      solvePnP = (\<lambda>call. (False, (0, 0, 0), tvec call)),
      Rodrigues = rodrigues_formula,
      cv_normalize = normalize_l2\<rparr>"

definition frame1 :: image where
  "frame1 = \<lparr>cols = 640, rows = 480, pixels = []\<rparr>"

definition frame2 :: image where
  "frame2 = \<lparr>cols = 321, rows = 201, pixels = []\<rparr>"

text \<open>The estimator after the frame \<open>frame1\<close> with the sample collaborators.\<close>

definition sample_state :: HeadPoseEstimation where
  "sample_state =
     \<lparr>focalLength = 500, opticalCenterX = 320, opticalCenterY = 240,
      faces = [(0, 0, 10, 10)], shapes = [sample_shape]\<rparr>"

text \<open>A face whose left eye spans 40 pixels and whose right eye spans 20 pixels, both
  of even height.\<close>

definition uneven_eyes_face :: full_object_detection where
  "uneven_eyes_face =
     sample_shape[36 := (100, 100), 37 := (110, 96), 38 := (130, 96),
                  39 := (140, 100), 40 := (130, 104), 41 := (110, 104),
                  42 := (200, 100), 43 := (205, 98), 44 := (215, 98),
                  45 := (220, 100), 46 := (215, 102), 47 := (205, 102)]"

section \<open>Properties\<close>

subsection \<open>Basic facts\<close>

lemma err_bind_Inr [simp]: "err_bind (Inr v) f = f v"
  by (simp add: err_bind_def)

lemma err_bind_Inl [simp]: "err_bind (Inl e) f = Inl e"
  by (simp add: err_bind_def)

lemma eyesROI_defined: "48 \<le> length face \<Longrightarrow> \<exists>r. eyesROI face = Inr r"
  by (simp add: eyesROI_def Let_def)

lemma pupilsRelativePose_defined:
  assumes "48 \<le> length face"
  shows "\<exists>r. pupilsRelativePose c img face = Inr r"
proof -
  obtain r where "eyesROI face = Inr r"
    using eyesROI_defined [OF assms] by blast
  then show ?thesis
    by (cases r) (simp add: pupilsRelativePose_def Let_def)
qed

lemma for_each_defined:
  "(\<And>x. x \<in> set xs \<Longrightarrow> \<exists>r. f x = Inr r) \<Longrightarrow> for_each f xs = Inr ()"
proof (induction xs)
  case Nil
  then show ?case by simp
next
  case (Cons x xs)
  then obtain r where "f x = Inr r" by force
  with Cons show ?case by simp
qed

text \<open>With a 68-point regressor \<^verbatim>\<open>update\<close> runs to its end; this is the object it leaves.\<close>

lemma update_defined:
  assumes "landmarks68 c"
  shows "update c img s =
    Inr ((if opticalCenterX s = - 1
          then s\<lparr>opticalCenterX := of_nat (cols img div 2), opticalCenterY := of_nat (rows img div 2)\<rparr>
          else s)\<lparr>faces := detector c img, shapes := map (pose_model c img) (detector c img)\<rparr>)"
proof -
  have "for_each (pupilsRelativePose c img) (map (pose_model c img) (detector c img)) = Inr ()"
  proof (rule for_each_defined)
    fix x assume "x \<in> set (map (pose_model c img) (detector c img))"
    then have "length x = 68" using assms by (auto simp: landmarks68_def)
    then show "\<exists>r. pupilsRelativePose c img x = Inr r"
      by (intro pupilsRelativePose_defined) simp
  qed
  then show ?thesis
    by (simp add: update_def Let_def)
qed

lemma sample_landmarks68: "landmarks68 sample_deps"
  by (simp add: landmarks68_def sample_deps_def sample_shape_def)

subsection \<open>The camera model\<close>

lemma updates_keep_center:
  assumes "landmarks68 c" and "opticalCenterX s \<noteq> - 1"
  shows "\<exists>s'. updates c imgs s = Inr s' \<and> opticalCenterX s' = opticalCenterX s
           \<and> opticalCenterY s' = opticalCenterY s"
  using assms(2)
proof (induction imgs arbitrary: s)
  case Nil
  then show ?case by simp
next
  case (Cons img imgs)
  let ?s1 = "s\<lparr>faces := detector c img, shapes := map (pose_model c img) (detector c img)\<rparr>"
  have u: "update c img s = Inr ?s1"
    using Cons.prems by (simp add: update_defined [OF assms(1)])
  have "opticalCenterX ?s1 \<noteq> - 1" using Cons.prems by simp
  from Cons.IH [OF this] show ?case using u by simp
qed

text \<open>
  Claim C6 says that the first frame sets the optical center to (width/2, height/2). The
  two halves are quotients of C++ \<^verbatim>\<open>int\<close>s: a first frame of 321 by 201 pixels sets the
  optical center to (160, 100), not to (160.5, 100.5).
\<close>

theorem optical_center_odd_frame:
  "update sample_deps frame2 (new_HeadPoseEstimation 500) =
     Inr \<lparr>focalLength = 500, opticalCenterX = 160, opticalCenterY = 100,
          faces = [(0, 0, 10, 10)], shapes = [sample_shape]\<rparr>
   \<and> cols frame2 = 321 \<and> rows frame2 = 201
   \<and> (160 :: real) \<noteq> 321 / 2 \<and> (100 :: real) \<noteq> 201 / 2"
  unfolding update_defined [OF sample_landmarks68]
  by (simp add: new_HeadPoseEstimation_def frame2_def sample_deps_def)

text \<open>
  Claim C6, amended. Starting from a freshly constructed estimator, the first \<^verbatim>\<open>update\<close>
  sets the optical center to (\<open>cols div 2\<close>, \<open>rows div 2\<close>) of its image, the halves
  rounded down as C++ integer division does, and whatever frames follow, of whatever
  dimensions, the optical center still has these values after the last of them. The
  landmark regressor is the one of the interface: 68 points per face.
\<close>

theorem optical_center_set_once:
  assumes "landmarks68 c"
  shows "\<exists>s'. updates c (img # imgs) (new_HeadPoseEstimation f) = Inr s'
           \<and> opticalCenterX s' = of_nat (cols img div 2)
           \<and> opticalCenterY s' = of_nat (rows img div 2)"
proof -
  let ?s1 = "(new_HeadPoseEstimation f)\<lparr>opticalCenterX := of_nat (cols img div 2),
      opticalCenterY := of_nat (rows img div 2), faces := detector c img,
      shapes := map (pose_model c img) (detector c img)\<rparr>"
  have u: "update c img (new_HeadPoseEstimation f) = Inr ?s1"
    by (simp add: update_defined [OF assms] new_HeadPoseEstimation_def)
  have "opticalCenterX ?s1 \<noteq> - 1"
    by simp
  from updates_keep_center [OF assms this, of imgs] show ?thesis using u by simp
qed

theorem optical_center_set_once_witness:
  "landmarks68 sample_deps \<and>
   (\<exists>s'. updates sample_deps [frame1, frame2] (new_HeadPoseEstimation 500) = Inr s'
      \<and> opticalCenterX s' = 320 \<and> opticalCenterY s' = 240) \<and>
   (\<exists>s'. updates sample_deps [frame2, frame1] (new_HeadPoseEstimation 500) = Inr s'
      \<and> opticalCenterX s' = 160 \<and> opticalCenterY s' = 100)"
  using optical_center_set_once [OF sample_landmarks68, of frame1 "[frame2]" 500]
    optical_center_set_once [OF sample_landmarks68, of frame2 "[frame1]" 500]
  by (simp add: sample_landmarks68 frame1_def frame2_def)

text \<open>
  Claim C7. The camera matrix that \<^verbatim>\<open>pose\<close> builds, row by row: the focal length at
  (0,0) and (1,1), the optical center at (0,2) and (1,2), 1 at (2,2), 0 everywhere else.
\<close>

theorem projection_entries:
  "projection s =
     ((focalLength s, 0, opticalCenterX s),
      (0, focalLength s, opticalCenterY s),
      (0, 0, 1))"
  by (simp add: projection_def zeros33_def)

subsection \<open>Landmark lookup and the pose\<close>

lemma coordsOf_in_range:
  assumes "face_idx < length (shapes s)" and "feature_index c feature < length (shapes s ! face_idx)"
  shows "coordsOf c s face_idx feature = Inr (landmark c s face_idx feature)"
  using assms by (simp add: coordsOf_def part_def landmark_def)

lemma coordsOf_face_out_of_range:
  "length (shapes s) \<le> face_idx \<Longrightarrow> coordsOf c s face_idx feature = Inl FaceIndexOutOfRange"
  by (simp add: coordsOf_def)

lemma pnp_arguments_face_out_of_range:
  "length (shapes s) \<le> face_idx \<Longrightarrow> pnp_arguments c s face_idx = Inl FaceIndexOutOfRange"
  by (simp add: pnp_arguments_def coordsOf_face_out_of_range)

lemma pose_face_out_of_range:
  "length (shapes s) \<le> face_idx \<Longrightarrow> pose c s face_idx = Inl FaceIndexOutOfRange"
  by (simp add: pose_def pnp_arguments_face_out_of_range)

lemma stomion_mid_point: "pt_scale (pt_add a b) (1 / 2) = mid_point a b"
  by (simp add: pt_scale_def pt_add_def mid_point_def)

lemma pnp_arguments_in_range:
  assumes "face_idx < length (shapes s)" and "length (shapes s ! face_idx) = 68"
    and "features_in_range c"
  shows "pnp_arguments c s face_idx = Inr (spec_solver_call c s face_idx)"
proof -
  have "coordsOf c s face_idx feature = Inr (landmark c s face_idx feature)" for feature
    using assms by (intro coordsOf_in_range) (simp_all add: features_in_range_def)
  then show ?thesis
    by (simp add: pnp_arguments_def spec_solver_call_def stomion_mid_point)
qed

lemma pose_of_call:
  assumes "pnp_arguments c s face_idx = Inr call"
  shows "pose c s face_idx =
           Inr (assemble (Rodrigues c (fst (snd (solvePnP c call)))) (snd (snd (solvePnP c call))))"
  using assms by (simp add: pose_def split: prod.splits)

lemma pose_defined:
  "pnp_arguments c s face_idx = Inr call \<Longrightarrow> \<exists>hp. pose c s face_idx = Inr hp"
  by (rule exI, erule pose_of_call)

text \<open>
  Claim C1. For a face index in range whose landmark set has 68 points (every landmark
  name of the header denoting one of them), \<^verbatim>\<open>pose\<close> calls the solver with exactly
  the eight correspondences sellion, right eye, left eye, right side, left side, menton,
  nose and stomion, the stomion being the midpoint of the mouth-center-top and
  mouth-center-bottom landmarks, with the camera matrix, no distortion coefficients, the
  seed rotation vector (1.2, 1.2, -1.2) and translation (0, 0, 1000), the flag that makes
  the solver start from the seed, and the iterative method; the pose it returns is built
  from what the solver leaves in the rotation and translation vectors.
\<close>

theorem pose_solver_call:
  assumes "face_idx < length (shapes s)" and "length (shapes s ! face_idx) = 68"
    and "features_in_range c"
  shows "pnp_arguments c s face_idx = Inr (spec_solver_call c s face_idx) \<and>
         pose c s face_idx =
           (case solvePnP c (spec_solver_call c s face_idx) of
              (ok, rvec', tvec') \<Rightarrow> Inr (assemble (Rodrigues c rvec') tvec'))"
  using pnp_arguments_in_range [OF assms]
  by (simp add: pose_def)

lemma sample_features_in_range: "features_in_range sample_deps"
  unfolding features_in_range_def
proof
  fix feature show "feature_index sample_deps feature < 68"
    by (cases feature) (simp_all add: sample_deps_def)
qed

lemma sample_shape_length: "length sample_shape = 68"
  by (simp add: sample_shape_def)

lemma sample_shape_nth: "i < 68 \<Longrightarrow> sample_shape ! i = (3 * int i, 2 * int i)"
  by (simp add: sample_shape_def)

lemma sample_update: "update sample_deps frame1 (new_HeadPoseEstimation 500) = Inr sample_state"
  unfolding update_defined [OF sample_landmarks68]
  by (simp add: new_HeadPoseEstimation_def sample_state_def frame1_def sample_deps_def)

theorem pose_solver_call_witness:
  "0 < length (shapes sample_state) \<and> length (shapes sample_state ! 0) = 68
   \<and> features_in_range sample_deps
   \<and> pnp_arguments sample_deps sample_state 0 = Inr (spec_solver_call sample_deps sample_state 0)
   \<and> imagePoints (spec_solver_call sample_deps sample_state 0) =
       [(81, 54), (108, 72), (135, 90), (0, 0), (48, 32), (24, 16), (90, 60), (192, 128)]
   \<and> pose sample_deps sample_state 0 = Inr ((1, 0, 0, 0), (0, 1, 0, 0), (0, 0, 1, 1), (0, 0, 0, 1))"
proof -
  have a: "0 < length (shapes sample_state)" and b: "length (shapes sample_state ! 0) = 68"
    by (simp_all add: sample_state_def sample_shape_length)
  have pts: "imagePoints (spec_solver_call sample_deps sample_state 0) =
       [(81, 54), (108, 72), (135, 90), (0, 0), (48, 32), (24, 16), (90, 60), (192, 128)]"
    by (simp add: spec_solver_call_def landmark_def mid_point_def toCv_def sample_state_def
        sample_deps_def sample_shape_nth)
  have t: "tvec (spec_solver_call sample_deps sample_state 0) = (0, 0, 1000)"
    by (simp add: spec_solver_call_def)
  have sv: "solvePnP sample_deps call = (False, (0, 0, 0), tvec call)" for call
    by (simp add: sample_deps_def)
  have r: "Rodrigues sample_deps (0, 0, 0) = ((1, 0, 0), (0, 1, 0), (0, 0, 1))"
    by (simp add: sample_deps_def rodrigues_formula_def)
  from pose_solver_call [OF a b sample_features_in_range]
  show ?thesis using a b pts by (simp add: sample_features_in_range sv t r)
qed


lemma sample_pnp_arguments:
  "pnp_arguments sample_deps sample_state 0 = Inr (spec_solver_call sample_deps sample_state 0)"
  by (rule pnp_arguments_in_range)
     (simp_all add: sample_state_def sample_shape_length sample_features_in_range)

lemma sample_rodrigues_zero: "rodrigues_formula (0, 0, 0) = ((1, 0, 0), (0, 1, 0), (0, 0, 1))"
  by (simp add: rodrigues_formula_def)

text \<open>
  Claim C2. Whatever rotation vector and translation the solver leaves, the matrix that
  \<^verbatim>\<open>pose\<close> returns has the result of \<^verbatim>\<open>Rodrigues\<close> on the rotation vector as its
  3x3 rotation block, the translation divided by 1000 as its last column, and
  (0, 0, 0, 1) as its bottom row.
\<close>

theorem pose_assembly:
  assumes "pnp_arguments c s face_idx = Inr call" and "solvePnP c call = (ok, rvec', tvec')"
  shows "\<exists>hp. pose c s face_idx = Inr hp
           \<and> rotation_block hp = Rodrigues c rvec'
           \<and> translation_column hp = vdiv tvec' 1000
           \<and> bottom_row hp = (0, 0, 0, 1)"
proof -
  obtain r00 r01 r02 r10 r11 r12 r20 r21 r22
    where r: "Rodrigues c rvec' = ((r00, r01, r02), (r10, r11, r12), (r20, r21, r22))"
    by (metis prod_cases3)
  obtain t0 t1 t2 where t: "tvec' = (t0, t1, t2)"
    by (metis prod_cases3)
  show ?thesis
    using assms by (simp add: pose_def r t)
qed

theorem pose_assembly_witness:
  "pnp_arguments sample_deps sample_state 0 = Inr (spec_solver_call sample_deps sample_state 0)
   \<and> solvePnP (sample_deps\<lparr>solvePnP := \<lambda>call. (True, (0, 0, 0), (100, - 200, 3000))\<rparr>)
        (spec_solver_call sample_deps sample_state 0) = (True, (0, 0, 0), (100, - 200, 3000))
   \<and> (\<exists>hp. pose (sample_deps\<lparr>solvePnP := \<lambda>call. (True, (0, 0, 0), (100, - 200, 3000))\<rparr>) sample_state 0 = Inr hp
        \<and> rotation_block hp = ((1, 0, 0), (0, 1, 0), (0, 0, 1))
        \<and> translation_column hp = (1 / 10, - 1 / 5, 3)
        \<and> bottom_row hp = (0, 0, 0, 1))"
proof -
  let ?c = "sample_deps\<lparr>solvePnP := \<lambda>call. (True, (0, 0, 0), (100, - 200, 3000))\<rparr>"
  let ?call = "spec_solver_call sample_deps sample_state 0"
  have fr: "features_in_range ?c"
    using sample_features_in_range by (simp add: features_in_range_def)
  have a: "pnp_arguments ?c sample_state 0 = Inr (spec_solver_call ?c sample_state 0)"
    by (rule pnp_arguments_in_range)
       (simp_all add: sample_state_def sample_shape_length fr)
  have same: "spec_solver_call ?c sample_state 0 = ?call"
    by (simp add: spec_solver_call_def landmark_def)
  have b: "solvePnP ?c ?call = (True, (0, 0, 0), (100, - 200, 3000))"
    by simp
  have r: "Rodrigues sample_deps (0, 0, 0) = ((1, 0, 0), (0, 1, 0), (0, 0, 1))"
    by (simp add: sample_deps_def sample_rodrigues_zero)
  from pose_assembly [OF a [unfolded same] b]
  show ?thesis using sample_pnp_arguments by (simp add: r)
qed

text \<open>
  Claim C3 says that a failed solve is surfaced as a failure result. It is not: with a
  solver that reports failure and leaves a zero rotation vector, \<^verbatim>\<open>pose\<close> returns the
  identity rotation one meter in front of the camera.
\<close>

theorem failed_solve_returns_pose:
  "fst (solvePnP sample_deps (spec_solver_call sample_deps sample_state 0)) = False
   \<and> pose sample_deps sample_state 0 = Inr ((1, 0, 0, 0), (0, 1, 0, 0), (0, 0, 1, 1), (0, 0, 0, 1))"
proof -
  have sv: "solvePnP sample_deps call = (False, (0, 0, 0), tvec call)" for call
    by (simp add: sample_deps_def)
  have t: "tvec (spec_solver_call sample_deps sample_state 0) = (0, 0, 1000)"
    by (simp add: spec_solver_call_def)
  have r: "Rodrigues sample_deps (0, 0, 0) = ((1, 0, 0), (0, 1, 0), (0, 0, 1))"
    by (simp add: sample_deps_def sample_rodrigues_zero)
  show ?thesis
    by (simp add: pose_of_call [OF sample_pnp_arguments] sv t r)
qed

text \<open>
  Claim C3, amended. \<^verbatim>\<open>pose\<close> has no failure result for the solve and does not read
  the boolean that the solver returns: whenever the landmark lookups before the call are
  in range, it returns the 4x4 matrix assembled from the rotation vector (through
  \<^verbatim>\<open>Rodrigues\<close>) and the translation vector (divided by 1000) that the solver left,
  whatever these are; otherwise it is the out-of-range read of the lookups. In
  particular, for a solver that leaves the vectors \<open>out call\<close>, the result is the same
  whatever success flag \<open>ok call\<close> the solver reports.
\<close>

theorem pose_from_solver_output:
  "pose c s face_idx =
     (case pnp_arguments c s face_idx of
        Inl e \<Rightarrow> Inl e
      | Inr call \<Rightarrow>
          Inr (assemble (Rodrigues c (fst (snd (solvePnP c call)))) (snd (snd (solvePnP c call)))))
   \<and> pose (c\<lparr>solvePnP := \<lambda>call. (ok call, out call)\<rparr>) s face_idx =
     (case pnp_arguments c s face_idx of
        Inl e \<Rightarrow> Inl e
      | Inr call \<Rightarrow> Inr (assemble (Rodrigues c (fst (out call))) (snd (out call))))"
proof -
  have first: "pose c' s face_idx =
     (case pnp_arguments c' s face_idx of
        Inl e \<Rightarrow> Inl e
      | Inr call \<Rightarrow>
          Inr (assemble (Rodrigues c' (fst (snd (solvePnP c' call)))) (snd (snd (solvePnP c' call)))))"
    for c'
  proof (cases "pnp_arguments c' s face_idx")
    case (Inl e)
    then show ?thesis by (simp add: pose_def)
  next
    case (Inr call)
    then show ?thesis by (simp add: pose_of_call [OF Inr])
  qed
  have same: "pnp_arguments (c\<lparr>solvePnP := f\<rparr>) s face_idx = pnp_arguments c s face_idx" for f
    by (simp add: pnp_arguments_def coordsOf_def)
  have second: "pose (c\<lparr>solvePnP := \<lambda>call. (ok call, out call)\<rparr>) s face_idx =
     (case pnp_arguments c s face_idx of
        Inl e \<Rightarrow> Inl e
      | Inr call \<Rightarrow> Inr (assemble (Rodrigues c (fst (out call))) (snd (out call))))"
    by (simp add: first [of "c\<lparr>solvePnP := \<lambda>call. (ok call, out call)\<rparr>"] same
        split: sum.splits)
  from first [of c] second show ?thesis by (rule conjI)
qed

text \<open>
  Claim C9 says that \<^verbatim>\<open>pose\<close> before any frame is an explicit uninitialized-camera
  failure. It is not: on a freshly constructed estimator the camera matrix is built from
  the sentinel (-1, -1) without any check, and the call then reads \<^verbatim>\<open>shapes[0]\<close> of an
  empty vector.
\<close>

theorem pose_before_first_frame_counterexample:
  "projection (new_HeadPoseEstimation 500) = ((500, 0, - 1), (0, 500, - 1), (0, 0, 1))
   \<and> pose sample_deps (new_HeadPoseEstimation 500) 0 = Inl FaceIndexOutOfRange"
  by (simp add: projection_def zeros33_def pose_face_out_of_range new_HeadPoseEstimation_def)

text \<open>
  Claim C9, amended. Before any frame has been processed, \<^verbatim>\<open>pose\<close> does not check the
  optical center: the camera matrix holds the sentinel -1 in both optical-center
  entries, every face index is out of the range of the empty landmark sequence, so the
  call is an out-of-range read and no uninitialized-camera result exists; \<^verbatim>\<open>poses\<close>
  returns the empty sequence.
\<close>

theorem pose_before_first_frame:
  "pose c (new_HeadPoseEstimation f) face_idx = Inl FaceIndexOutOfRange
   \<and> poses c (new_HeadPoseEstimation f) = Inr []
   \<and> projection (new_HeadPoseEstimation f) = ((f, 0, - 1), (0, f, - 1), (0, 0, 1))"
  by (simp add: projection_def zeros33_def pose_face_out_of_range poses_def new_HeadPoseEstimation_def)

text \<open>
  Claim C10. After an \<^verbatim>\<open>update\<close> (68 landmarks per face, landmark names within them),
  \<^verbatim>\<open>coordsOf\<close> and \<^verbatim>\<open>pose\<close> return a value exactly when the face index is less than
  the number of faces that this update detected; for every other index both reach the
  out-of-range read of \<^verbatim>\<open>shapes[face_idx]\<close>.
\<close>

theorem lookup_defined_iff_face_in_range:
  assumes "landmarks68 c" and "features_in_range c" and "update c img s = Inr s'"
  shows "((\<exists>p. coordsOf c s' face_idx feature = Inr p) = (face_idx < length (faces s')))
       \<and> ((\<exists>hp. pose c s' face_idx = Inr hp) = (face_idx < length (faces s')))
       \<and> (if face_idx < length (faces s')
          then coordsOf c s' face_idx feature = Inr (landmark c s' face_idx feature)
          else coordsOf c s' face_idx feature = Inl FaceIndexOutOfRange
             \<and> pose c s' face_idx = Inl FaceIndexOutOfRange)"
proof -
  from assms(3) have s': "faces s' = detector c img"
      "shapes s' = map (pose_model c img) (detector c img)"
    by (auto simp: update_defined [OF assms(1)])
  have len: "length (shapes s') = length (faces s')" by (simp add: s')
  show ?thesis
  proof (cases "face_idx < length (faces s')")
    case True
    then have a: "face_idx < length (shapes s')" by (simp add: len)
    have "length (pose_model c img face) = 68" for face
      using assms(1) unfolding landmarks68_def by blast
    then have b: "length (shapes s' ! face_idx) = 68"
      using True by (simp add: s')
    have "coordsOf c s' face_idx feature = Inr (landmark c s' face_idx feature)"
      using a b assms(2) by (intro coordsOf_in_range) (simp_all add: features_in_range_def)
    moreover have "\<exists>hp. pose c s' face_idx = Inr hp"
      by (rule pose_defined [OF pnp_arguments_in_range [OF a b assms(2)]])
    ultimately show ?thesis using True by (simp del: split_paired_Ex)
  next
    case False
    then have "length (shapes s') \<le> face_idx" by (simp add: len)
    then show ?thesis
      using False by (simp add: coordsOf_face_out_of_range pose_face_out_of_range)
  qed
qed

theorem lookup_defined_iff_face_in_range_witness:
  "landmarks68 sample_deps \<and> features_in_range sample_deps
   \<and> update sample_deps frame1 (new_HeadPoseEstimation 500) = Inr sample_state
   \<and> length (faces sample_state) = 1
   \<and> coordsOf sample_deps sample_state 0 NOSE = Inr (90, 60)
   \<and> (\<exists>hp. pose sample_deps sample_state 0 = Inr hp)
   \<and> coordsOf sample_deps sample_state 1 NOSE = Inl FaceIndexOutOfRange
   \<and> pose sample_deps sample_state 1 = Inl FaceIndexOutOfRange"
proof -
  have l: "length (faces sample_state) = 1"
    by (simp add: sample_state_def)
  have n: "landmark sample_deps sample_state 0 NOSE = (90, 60)"
    by (simp add: landmark_def toCv_def sample_state_def sample_deps_def sample_shape_nth)
  from lookup_defined_iff_face_in_range [OF sample_landmarks68 sample_features_in_range sample_update, of 0 NOSE]
    lookup_defined_iff_face_in_range [OF sample_landmarks68 sample_features_in_range sample_update, of 1 NOSE]
  show ?thesis
    by (simp add: l n sample_landmarks68 sample_features_in_range sample_update)
qed

subsection \<open>Eye regions\<close>

lemma cvRound_of_int [simp]: "cvRound (of_int n) = n"
  by (simp add: cvRound_def)

lemma trunc_of_int [simp]: "trunc (of_int n) = n"
  by (simp add: trunc_def)

lemma trunc_three_halves:
  assumes "0 \<le> W"
  shows "trunc (of_int W + 2 * (25 / 100 * of_int W)) = W + W div 2"
proof -
  have "of_int W + 2 * (25 / 100 * of_int W) = (of_int (3 * W) :: real) / of_int 2"
    by simp
  moreover have "\<lfloor>(of_int (3 * W) :: real) / of_int 2\<rfloor> = (3 * W) div 2"
    by (rule floor_divide_of_int_eq)
  moreover have "(0::real) \<le> of_int W + 2 * (25 / 100 * of_int W)"
    using assms by simp
  ultimately have "trunc (of_int W + 2 * (25 / 100 * of_int W)) = (3 * W) div 2"
    by (simp only: trunc_def if_True)
  then show ?thesis by presburger
qed

lemma Rect_of_points_width_nonneg: "0 \<le> rect_width (Rect_of_points p q)"
  by (simp add: Rect_of_points_def)

lemma eye_base_rect_width_nonneg: "0 \<le> rect_width (eye_base_rect face a u1 u2 b l1 l2)"
  by (simp add: eye_base_rect_def Rect_of_points_width_nonneg)

lemma eye_base_rect_landmarks:
  "eye_base_rect face a u1 u2 b l1 l2 =
     \<lparr>rect_x = min (fst (face ! a)) (fst (face ! b)),
      rect_y = min (min (snd (face ! u1)) (snd (face ! u2))) (max (snd (face ! l1)) (snd (face ! l2))),
      rect_width = \<bar>fst (face ! b) - fst (face ! a)\<bar>,
      rect_height = \<bar>max (snd (face ! l1)) (snd (face ! l2)) - min (snd (face ! u1)) (snd (face ! u2))\<bar>\<rparr>"
proof -
  have mn: "min (real_of_int i) (real_of_int j) = real_of_int (min i j)" for i j
    by (simp add: min_def)
  have mx: "max (real_of_int i) (real_of_int j) = real_of_int (max i j)" for i j
    by (simp add: max_def)
  show ?thesis
    by (simp add: eye_base_rect_def Rect_of_points_def Point_of_Point2f_def toCv_def mn mx)
       (simp add: min_def max_def)
qed

text \<open>
  Claim C4, amended. For the left eye the margin is 25 percent of the width of its own
  base rectangle; the enlarged rectangle has top-left coordinates equal to the base
  coordinates minus the margin and width and height equal to the base dimensions plus
  twice the margin, each converted to an integer by truncation toward zero. Its width is
  therefore the base width plus half the base width rounded down, which is 1.5 times the
  base width when that is even.
\<close>

theorem left_eye_enlargement:
  assumes "48 \<le> length face"
  shows "\<exists>leye leye_roi reye reye_roi.
           eyesROI face = Inr (leye, leye_roi, reye, reye_roi)
         \<and> leye_roi =
             (let base = eye_base_rect face 36 37 38 39 40 41;
                  margin = 25 / 100 * of_int (rect_width base)
              in \<lparr>rect_x = trunc (of_int (rect_x base) - margin),
                  rect_y = trunc (of_int (rect_y base) - margin),
                  rect_width = trunc (of_int (rect_width base) + 2 * margin),
                  rect_height = trunc (of_int (rect_height base) + 2 * margin)\<rparr>)
         \<and> rect_width leye_roi =
             rect_width (eye_base_rect face 36 37 38 39 40 41)
             + rect_width (eye_base_rect face 36 37 38 39 40 41) div 2"
proof -
  let ?base = "eye_base_rect face 36 37 38 39 40 41"
  have w: "trunc (of_int (rect_width ?base) + 2 * (25 / 100 * of_int (rect_width ?base)))
             = rect_width ?base + rect_width ?base div 2"
    by (rule trunc_three_halves) (rule eye_base_rect_width_nonneg)
  show ?thesis
    using assms w
    by (simp add: eyesROI_def Let_def enlarge_def EYE_ROI_ENLARGE_FACTOR_def)
qed

lemma trunc_pos: "0 \<le> r \<Longrightarrow> trunc r = \<lfloor>r\<rfloor>"
  by (simp add: trunc_def)

lemma sample_left_base:
  "eye_base_rect sample_shape 36 37 38 39 40 41 =
     \<lparr>rect_x = 108, rect_y = 74, rect_width = 9, rect_height = 8\<rparr>"
  by (simp add: eye_base_rect_landmarks sample_shape_nth)

lemma sample_right_base:
  "eye_base_rect sample_shape 42 43 44 45 46 47 =
     \<lparr>rect_x = 126, rect_y = 86, rect_width = 9, rect_height = 8\<rparr>"
  by (simp add: eye_base_rect_landmarks sample_shape_nth)

lemma sample_eyesROI:
  "eyesROI sample_shape =
     Inr ([(3, 1), (6, 3), (9, 5), (12, 7), (15, 9), (18, 11)],
          \<lparr>rect_x = 105, rect_y = 71, rect_width = 13, rect_height = 12\<rparr>,
          [(4, 2), (7, 4), (10, 6), (13, 8), (16, 10), (19, 12)],
          \<lparr>rect_x = 122, rect_y = 82, rect_width = 15, rect_height = 14\<rparr>)"
  by (simp add: eyesROI_def Let_def sample_shape_length sample_left_base sample_right_base
      enlarge_def EYE_ROI_ENLARGE_FACTOR_def trunc_pos Rect_tl_def pt_sub_def toCvI_def
      sample_shape_nth)


theorem left_eye_enlargement_witness:
  "48 \<le> length sample_shape \<and>
   (\<exists>leye leye_roi reye reye_roi.
      eyesROI sample_shape = Inr (leye, leye_roi, reye, reye_roi)
      \<and> leye_roi = \<lparr>rect_x = 105, rect_y = 71, rect_width = 13, rect_height = 12\<rparr>
      \<and> rect_width leye_roi = 9 + 9 div 2)"
proof -
  have l: "48 \<le> length sample_shape"
    by (simp add: sample_shape_length)
  from left_eye_enlargement [OF l] show ?thesis
    using l by (simp add: sample_left_base Let_def trunc_pos)
qed

text \<open>
  Claim C4 says that each enlarged eye rectangle is 1.5 times as wide as its base
  rectangle. On the sample face both base rectangles are 9 wide; the enlarged left
  rectangle is 13 wide, not 13.5, since the width of a \<^verbatim>\<open>Rect\<close> is an integer (and the
  right one is 15 wide).
\<close>

theorem eye_width_not_three_halves:
  "eyesROI sample_shape =
     Inr ([(3, 1), (6, 3), (9, 5), (12, 7), (15, 9), (18, 11)],
          \<lparr>rect_x = 105, rect_y = 71, rect_width = 13, rect_height = 12\<rparr>,
          [(4, 2), (7, 4), (10, 6), (13, 8), (16, 10), (19, 12)],
          \<lparr>rect_x = 122, rect_y = 82, rect_width = 15, rect_height = 14\<rparr>)
   \<and> rect_width (eye_base_rect sample_shape 36 37 38 39 40 41) = 9
   \<and> rect_width (eye_base_rect sample_shape 42 43 44 45 46 47) = 9
   \<and> real_of_int 13 \<noteq> 1.5 * real_of_int 9"
  by (simp add: sample_eyesROI sample_left_base sample_right_base)

text \<open>The right eye on its own: with base widths 40 (left) and 20 (right), where no
  truncation occurs, the right rectangle is enlarged by the margin 15, a quarter of the
  enlarged left width 60, to the width 50; a quarter of its own width is 5.\<close>

lemma uneven_length: "length uneven_eyes_face = 68"
  by (simp add: uneven_eyes_face_def sample_shape_length)

lemma uneven_left_base:
  "eye_base_rect uneven_eyes_face 36 37 38 39 40 41 =
     \<lparr>rect_x = 100, rect_y = 96, rect_width = 40, rect_height = 8\<rparr>"
  by (simp add: eye_base_rect_landmarks uneven_eyes_face_def sample_shape_length)

lemma uneven_right_base:
  "eye_base_rect uneven_eyes_face 42 43 44 45 46 47 =
     \<lparr>rect_x = 200, rect_y = 98, rect_width = 20, rect_height = 4\<rparr>"
  by (simp add: eye_base_rect_landmarks uneven_eyes_face_def sample_shape_length)

lemma right_eye_margin_from_left_eye:
  "\<exists>leye reye.
     eyesROI uneven_eyes_face =
       Inr (leye, \<lparr>rect_x = 90, rect_y = 86, rect_width = 60, rect_height = 28\<rparr>,
            reye, \<lparr>rect_x = 185, rect_y = 83, rect_width = 50, rect_height = 34\<rparr>)"
  by (simp add: eyesROI_def Let_def uneven_length uneven_left_base uneven_right_base
      enlarge_def EYE_ROI_ENLARGE_FACTOR_def trunc_pos)

subsection \<open>Pupil normalization\<close>

lemma cdiv_two_nonneg: "0 \<le> a \<Longrightarrow> cdiv a 2 = a div 2"
  by (cases "a = 0") (simp_all add: cdiv_def)

text \<open>For a rectangle of even width and height the center goes to (0, 0) and the middle
  of the right edge to (1, 0).\<close>

lemma relative_pose_even:
  assumes "0 < w" and "0 < h"
  shows "relative_pose \<lparr>rect_x = x0, rect_y = y0, rect_width = 2 * w, rect_height = 2 * h\<rparr>
           (of_int w, of_int h) = (Finite 0, Finite 0)"
    and "relative_pose \<lparr>rect_x = x0, rect_y = y0, rect_width = 2 * w, rect_height = 2 * h\<rparr>
           (of_int (2 * w), of_int h) = (Finite 1, Finite 0)"
  using assms
  by (simp_all add: relative_pose_def Let_def Rect_br_def Rect_tl_def pt_sub_def pt_scale_def
      Point2f_of_Point_def cdiv_two_nonneg fdiv_def)

text \<open>
  Claim C5 says that each axis is divided by half the dimension of the rectangle, so that
  the middle of the right edge goes to (1, 0). The divisor is the integer quotient
  \<^verbatim>\<open>width/2\<close>: in the eye rectangle of width 13 and height 12 the middle of the right
  edge, (13, 6), goes to (13/12, 0); on the sample face, whose pupil locator answers the
  middle of the right edge, \<^verbatim>\<open>pupilsRelativePose\<close> gives 13/12 and 15/14 for the two
  eyes.
\<close>

theorem pupil_right_edge_odd_width:
  "relative_pose \<lparr>rect_x = 105, rect_y = 71, rect_width = 13, rect_height = 12\<rparr> (13, 6)
     = (Finite (13 / 12), Finite 0)
   \<and> pupilsRelativePose sample_deps frame1 sample_shape
     = Inr ((Finite (13 / 12), Finite 0), (Finite (15 / 14), Finite 0))"
proof -
  have f: "findEyeCenter sample_deps img roi m = (of_int (rect_width roi), of_int (rect_height roi) / 2)"
    for img roi m
    by (simp add: sample_deps_def)
  have r: "relative_pose \<lparr>rect_x = x0, rect_y = y0, rect_width = 13, rect_height = 12\<rparr> (13, 6)
     = (Finite (13 / 12), Finite 0)" for x0 y0
    by (simp add: relative_pose_def Let_def Rect_br_def Rect_tl_def pt_sub_def pt_scale_def
      Point2f_of_Point_def cdiv_two_nonneg fdiv_def)
  have r2: "relative_pose \<lparr>rect_x = x0, rect_y = y0, rect_width = 15, rect_height = 14\<rparr> (15, 7)
     = (Finite (15 / 14), Finite 0)" for x0 y0
    by (simp add: relative_pose_def Let_def Rect_br_def Rect_tl_def pt_sub_def pt_scale_def
      Point2f_of_Point_def cdiv_two_nonneg fdiv_def)
  show ?thesis
    by (simp add: pupilsRelativePose_def sample_eyesROI f r r2 Let_def)
qed

subsection \<open>The gaze ray\<close>

text \<open>
  Claim C8 says that a gaze direction parallel to the plane z = 0 is reported as a
  failure and never gives a NaN or infinite point. For the pose with identity rotation
  one meter in front of the camera the direction is (1, 0, 0), its product with the
  normal is 0, the division is carried out, and the point has no finite coordinate.
\<close>

theorem gaze_parallel_counterexample:
  "gaze sample_deps ((1, 0, 0, 0), (0, 1, 0, 0), (0, 0, 1, 1), (0, 0, 0, 1))
     = ((0, 0, 1), (1, 0, 0), (NonFinite, NonFinite, NonFinite))
   \<and> dot (1, 0, 0) (0, 0, 1) = 0"
  by (simp add: gaze_def sample_deps_def normalize_l2_def fdiv_def)

text \<open>
  Claim C8, amended. The gaze computation of the debug build has no check for a
  direction parallel to the plane and reports nothing: its origin is the translation of
  the pose, and it always divides by the product of direction and normal. When that
  product is 0 the intersection point is non-finite in every coordinate; otherwise the
  point is origin + t * direction with t = -(origin . normal) / (direction . normal), and
  lies in the plane z = 0.
\<close>

theorem gaze_divides_without_check:
  assumes "gaze c hp = (P0, V, P)"
  shows "P0 = translation_column hp
       \<and> (if dot V (0, 0, 1) = 0 then P = (NonFinite, NonFinite, NonFinite)
          else P = finite_point (vadd P0 (vscale (- dot P0 (0, 0, 1) / dot V (0, 0, 1)) V))
             \<and> (\<exists>x y. P = (Finite x, Finite y, Finite 0)))"
proof -
  obtain a0 a1 a2 a3 b0 b1 b2 b3 c0 c1 c2 c3 d0 d1 d2 d3
    where hp: "hp = ((a0, a1, a2, a3), (b0, b1, b2, b3), (c0, c1, c2, c3), (d0, d1, d2, d3))"
    by (metis prod_cases4)
  obtain vx vy vz where v: "cv_normalize c (a0, b0, c0) = (vx, vy, vz)"
    by (metis prod_cases3)
  from assms have "P0 = (a3, b3, c3)" and "V = (vx, vy, vz)"
    and P: "P = ray_point (a3, b3, c3) (fdiv (- c3) vz) (vx, vy, vz)"
    by (auto simp: gaze_def hp v Let_def)
  then show ?thesis
    by (simp add: hp fdiv_def)
qed

theorem gaze_divides_without_check_witness:
  "gaze sample_deps ((1, 0, 0, 0), (0, 1, 0, 0), (0, 0, 1, 1), (0, 0, 0, 1))
     = ((0, 0, 1), (1, 0, 0), (NonFinite, NonFinite, NonFinite))
   \<and> gaze sample_deps ((0, 0, 1, 0), (0, 1, 0, 0), (- 1, 0, 0, 1), (0, 0, 0, 1))
     = ((0, 0, 1), (0, 0, - 1), (Finite 0, Finite 0, Finite 0))"
proof -
  have a: "gaze sample_deps ((1, 0, 0, 0), (0, 1, 0, 0), (0, 0, 1, 1), (0, 0, 0, 1))
     = ((0, 0, 1), (1, 0, 0), ray_point (0, 0, 1) (fdiv (- 1) 0) (1, 0, 0))"
    by (simp add: gaze_def Let_def sample_deps_def normalize_l2_def del: ray_point.simps)
  have b: "gaze sample_deps ((0, 0, 1, 0), (0, 1, 0, 0), (- 1, 0, 0, 1), (0, 0, 0, 1))
     = ((0, 0, 1), (0, 0, - 1), ray_point (0, 0, 1) (fdiv (- 1) (- 1)) (0, 0, - 1))"
    by (simp add: gaze_def Let_def sample_deps_def normalize_l2_def del: ray_point.simps)
  from gaze_divides_without_check [OF a] gaze_divides_without_check [OF b]
  show ?thesis
    unfolding a b by simp
qed

end
